theory Spec2Isabelle
  imports Main "HOL-Library.Word"
begin

unbundle bit_operations_syntax

section \<open>JavaScript values and errors\<close>

text \<open>
  The serialization service of \<^verbatim>\<open>SerializationService.ts\<close> takes values of type
  \<^verbatim>\<open>any\<close>. They are modelled by a datatype of JavaScript values. A number is its
  IEEE-754 binary64 bit pattern. An array and a plain object carry their own data
  properties as an association list; an array carries its elements as well (a hole of
  a sparse array reads as \<open>JUndefined\<close>). A function value is an opaque identifier.

  An exception is a value of the type \<open>error\<close>: \<open>TypeError\<close> is what the engine
  raises when a property of \<^verbatim>\<open>null\<close> or \<^verbatim>\<open>undefined\<close> is read, or a value that is
  not a function is called; \<open>RangeError\<close> carries the message of the
  \<^verbatim>\<open>throw new RangeError(...)\<close> statements of the source; \<open>OutOfRange\<close> is raised
  by the buffer primitives, which are not part of the source files at hand.
\<close>

type_synonym byte = "8 word"
type_synonym int32 = "32 word"

datatype error = TypeError | RangeError string | OutOfRange

datatype jsval =
    JUndefined
  | JNull
  | JBool bool
  | JNumber "64 word"
  | JString string
  | JFunction nat
  | JArray "(string \<times> jsval) list" "jsval list"
  | JObject "(string \<times> jsval) list"

definition isZero64 :: "64 word \<Rightarrow> bool" where
  "isZero64 w = (w AND 0x7FFFFFFFFFFFFFFF = 0)"

definition isNaN64 :: "64 word \<Rightarrow> bool" where
  "isNaN64 w = (w AND 0x7FF0000000000000 = 0x7FF0000000000000 \<and> w AND 0x000FFFFFFFFFFFFF \<noteq> 0)"

text \<open>JavaScript's conversion to boolean, as \<^verbatim>\<open>if (x)\<close>, \<^verbatim>\<open>!x\<close> and \<^verbatim>\<open>&&\<close> apply it.\<close>

fun truthy :: "jsval \<Rightarrow> bool" where
  "truthy JUndefined = False"
| "truthy JNull = False"
| "truthy (JBool b) = b"
| "truthy (JNumber w) = (\<not> isZero64 w \<and> \<not> isNaN64 w)"
| "truthy (JString s) = (s \<noteq> [])"
| "truthy (JFunction f) = True"
| "truthy (JArray ps xs) = True"
| "truthy (JObject ps) = True"

text \<open>
  Reading a property \<^verbatim>\<open>obj.k\<close> or \<^verbatim>\<open>obj['k']\<close>. On \<^verbatim>\<open>null\<close> and \<^verbatim>\<open>undefined\<close> the
  engine raises a TypeError. Otherwise the value's own property is returned, and
  \<^verbatim>\<open>undefined\<close> when it has none: the service probes the names \<^verbatim>\<open>readData\<close>,
  \<^verbatim>\<open>writeData\<close>, \<^verbatim>\<open>getClassId\<close>, \<^verbatim>\<open>getFactoryId\<close> and \<^verbatim>\<open>getPartitionHash\<close> only,
  which no built-in prototype defines.
\<close>

fun getProp :: "jsval \<Rightarrow> string \<Rightarrow> error + jsval" where
  "getProp JUndefined k = Inl TypeError"
| "getProp JNull k = Inl TypeError"
| "getProp (JArray ps xs) k = Inr (case map_of ps k of Some v \<Rightarrow> v | None \<Rightarrow> JUndefined)"
| "getProp (JObject ps) k = Inr (case map_of ps k of Some v \<Rightarrow> v | None \<Rightarrow> JUndefined)"
| "getProp v k = Inr JUndefined"

text \<open>The elements of an array, for \<^verbatim>\<open>obj.length\<close> and \<^verbatim>\<open>obj[0]\<close>.\<close>

fun elements :: "jsval \<Rightarrow> jsval list" where
  "elements (JArray ps xs) = xs"
| "elements v = []"

text \<open>\<^verbatim>\<open>obj[0]\<close>: the first element, \<^verbatim>\<open>undefined\<close> when there is none.\<close>

definition firstElement :: "jsval \<Rightarrow> jsval" where
  "firstElement obj = (case elements obj of [] \<Rightarrow> JUndefined | x # xs \<Rightarrow> x)"

text \<open>
  Modelled from the spec: \<^verbatim>\<open>Util.getType\<close> (\<^verbatim>\<open>Util.ts\<close> is not among the source files).
  The spec classifies a value by its runtime shape: a sequence is an array, and a scalar
  has the shape name \<^verbatim>\<open>string\<close>, \<^verbatim>\<open>number\<close>, \<^verbatim>\<open>boolean\<close> or \<^verbatim>\<open>null\<close>; every other
  value has the name \<^verbatim>\<open>typeof\<close> gives it.
\<close>

fun getType :: "jsval \<Rightarrow> string" where
  "getType (JArray ps xs) = ''array''"
| "getType JNull = ''null''"
| "getType JUndefined = ''undefined''"
| "getType (JBool b) = ''boolean''"
| "getType (JNumber w) = ''number''"
| "getType (JString s) = ''string''"
| "getType (JFunction f) = ''function''"
| "getType (JObject ps) = ''object''"

section \<open>Streams and envelopes\<close>

text \<open>A 32-bit integer as four bytes, most significant byte first, and the reverse.\<close>

definition be32 :: "int32 \<Rightarrow> byte list" where
  "be32 w = [ucast (drop_bit 24 w), ucast (drop_bit 16 w), ucast (drop_bit 8 w), ucast w]"

definition le32 :: "int32 \<Rightarrow> byte list" where
  "le32 w = rev (be32 w)"

fun rd_be32 :: "byte list \<Rightarrow> int32 option" where
  "rd_be32 (a # b # c # d # rest) =
     Some (push_bit 24 (ucast a) OR push_bit 16 (ucast b) OR push_bit 8 (ucast c) OR ucast d)"
| "rd_be32 bs = None"

definition rd_le32 :: "byte list \<Rightarrow> int32 option" where
  "rd_le32 bs = (if length bs < 4 then None else rd_be32 (rev (take 4 bs)))"

text \<open>
  Modelled from the spec: \<^verbatim>\<open>ObjectDataOutput\<close> and \<^verbatim>\<open>ObjectDataInput\<close>
  (\<^verbatim>\<open>ObjectData.ts\<close> is not among the source files). The spec's stream primitives: a
  writer appends to a growing buffer and has one byte-order flag fixed at construction;
  a reader has a buffer, a cursor and the same flag, and reading past the end of the
  buffer fails with OutOfRange. \<^verbatim>\<open>writeIntBE\<close> is the source's name for the write of a
  4-byte integer that is big-endian whatever the flag; \<^verbatim>\<open>writeInt\<close> and \<^verbatim>\<open>readInt\<close>
  follow the flag.
\<close>

record dataOutput =
  out_buffer :: "byte list"
  out_bigEndian :: bool

record dataInput =
  in_buffer :: "byte list"
  in_pos :: nat
  in_bigEndian :: bool

definition newObjectDataOutput :: "bool \<Rightarrow> dataOutput" where
  "newObjectDataOutput isBig = \<lparr>out_buffer = [], out_bigEndian = isBig\<rparr>"

definition newObjectDataInput :: "byte list \<Rightarrow> nat \<Rightarrow> bool \<Rightarrow> dataInput" where
  "newObjectDataInput buf offset isBig = \<lparr>in_buffer = buf, in_pos = offset, in_bigEndian = isBig\<rparr>"

definition writeIntBE :: "dataOutput \<Rightarrow> int32 \<Rightarrow> dataOutput" where
  "writeIntBE out v = out\<lparr>out_buffer := out_buffer out @ be32 v\<rparr>"

definition writeInt :: "dataOutput \<Rightarrow> int32 \<Rightarrow> dataOutput" where
  "writeInt out v =
     out\<lparr>out_buffer := out_buffer out @ (if out_bigEndian out then be32 v else le32 v)\<rparr>"

definition readInt :: "dataInput \<Rightarrow> error + (int32 \<times> dataInput)" where
  "readInt inp =
     (case (if in_bigEndian inp then rd_be32 else rd_le32) (drop (in_pos inp) (in_buffer inp)) of
        None \<Rightarrow> Inl OutOfRange
      | Some v \<Rightarrow> Inr (v, inp\<lparr>in_pos := in_pos inp + 4\<rparr>))"

text \<open>
  Modelled from the spec: \<^verbatim>\<open>HeapData\<close> and \<^verbatim>\<open>DATA_OFFSET\<close> (\<^verbatim>\<open>HeapData.ts\<close> is not among
  the source files). The spec's envelope is a byte buffer: a 4-byte partition hash, a
  4-byte type tag, then the payload; the payload starts after the two header fields.
  \<^verbatim>\<open>getType\<close> is the type tag, read from bytes 4 to 7, most significant byte first as
  \<^verbatim>\<open>toData\<close> writes it; a buffer that is too short has no tag.
\<close>

datatype heapData = HeapData (toBuffer: "byte list")

definition DATA_OFFSET :: nat where
  "DATA_OFFSET = 8"

definition getTypeOfData :: "heapData \<Rightarrow> error + int32" where
  "getTypeOfData d =
     (case rd_be32 (drop 4 (toBuffer d)) of None \<Rightarrow> Inl OutOfRange | Some t \<Rightarrow> Inr t)"

section \<open>The serialization service\<close>

text \<open>
  \<^verbatim>\<open>interface Serializer\<close>: a type tag and a pair of functions on streams. Their bodies
  are the serializers' own (\<^verbatim>\<open>DefaultSerializer.ts\<close> is not among the source files, and
  an application registers its own): the service only calls them.
\<close>

record serializer =
  getId :: int32
  write_fn :: "dataOutput \<Rightarrow> jsval \<Rightarrow> error + dataOutput"
  read_fn :: "dataInput \<Rightarrow> error + jsval"

text \<open>
  \<^verbatim>\<open>class SerializationServiceV1\<close>: the two lookup tables and the byte-order flag of its
  configuration. A table is a JavaScript object created as \<^verbatim>\<open>{}\<close>.
\<close>

record serializationService =
  registry :: "int32 \<rightharpoonup> serializer"
  serializerNameToId :: "string \<rightharpoonup> int32"
  isBigEndian :: bool

text \<open>
  The property names every object created as \<^verbatim>\<open>{}\<close> inherits from
  \<^verbatim>\<open>Object.prototype\<close>: reading one of them from a table that has no entry of that
  name gives a function or an object, which is truthy.
\<close>

definition objectPrototypeKeys :: "string list" where
  "objectPrototypeKeys =
     [''constructor'', ''hasOwnProperty'', ''isPrototypeOf'', ''propertyIsEnumerable'',
      ''toLocaleString'', ''toString'', ''valueOf'', ''__proto__'', ''__defineGetter__'',
      ''__defineSetter__'', ''__lookupGetter__'', ''__lookupSetter__'']"

text \<open>
  The test \<^verbatim>\<open>if (this.serializerNameToId[name])\<close>: the entry converted to boolean. A
  registered tag is a number, truthy unless it is 0.
\<close>

definition nameEntryTruthy :: "(string \<rightharpoonup> int32) \<Rightarrow> string \<Rightarrow> bool" where
  "nameEntryTruthy tbl name =
     (case tbl name of Some t \<Rightarrow> t \<noteq> 0 | None \<Rightarrow> name \<in> set objectPrototypeKeys)"

text \<open>
  \<^verbatim>\<open>registerSerializer\<close> mutates the service or throws. The model returns the outcome
  together with the service as the call leaves it.
\<close>

definition registerSerializer ::
  "serializationService \<Rightarrow> string \<Rightarrow> serializer \<Rightarrow> (error + unit) \<times> serializationService" where
  "registerSerializer s name ser =
     (if nameEntryTruthy (serializerNameToId s) name
      then (Inl (RangeError ''Given serializer name is already in the registry.''), s)
      else if registry s (getId ser) \<noteq> None
      then (Inl (RangeError ''Given serializer id is already in the registry.''), s)
      else (Inr (),
            s\<lparr>serializerNameToId := (serializerNameToId s)(name \<mapsto> getId ser),
              registry := (registry s)(getId ser \<mapsto> ser)\<rparr>))"

text \<open>A sequence of \<^verbatim>\<open>registerSerializer\<close> statements: the first one that throws ends it.\<close>

fun registerAll ::
  "serializationService \<Rightarrow> (string \<times> serializer) list \<Rightarrow> (error + unit) \<times> serializationService" where
  "registerAll s [] = (Inr (), s)"
| "registerAll s ((name, ser) # rest) =
     (case registerSerializer s name ser of
        (Inl e, s') \<Rightarrow> (Inl e, s')
      | (Inr u, s') \<Rightarrow> registerAll s' rest)"

text \<open>
  The fifteen serializers \<^verbatim>\<open>registerDefaultSerializers\<close> constructs. Their classes are
  in \<^verbatim>\<open>DefaultSerializer.ts\<close>, which is not among the source files, so they are
  parameters of the model.
\<close>

record defaultSerializers =
  StringSerializer :: serializer
  DoubleSerializer :: serializer
  BooleanSerializer :: serializer
  NullSerializer :: serializer
  ShortSerializer :: serializer
  IntegerSerializer :: serializer
  LongSerializer :: serializer
  FloatSerializer :: serializer
  BooleanArraySerializer :: serializer
  ShortArraySerializer :: serializer
  IntegerArraySerializer :: serializer
  LongArraySerializer :: serializer
  DoubleArraySerializer :: serializer
  StringArraySerializer :: serializer
  IdentifiedDataSerializableSerializer :: serializer

definition defaultRegistrations :: "defaultSerializers \<Rightarrow> (string \<times> serializer) list" where
  "defaultRegistrations d =
     [(''string'', StringSerializer d),
      (''number'', DoubleSerializer d),
      (''boolean'', BooleanSerializer d),
      (''null'', NullSerializer d),
      (''short'', ShortSerializer d),
      (''integer'', IntegerSerializer d),
      (''long'', LongSerializer d),
      (''float'', FloatSerializer d),
      (''booleanArray'', BooleanArraySerializer d),
      (''shortArray'', ShortArraySerializer d),
      (''integerArray'', IntegerArraySerializer d),
      (''longArray'', LongArraySerializer d),
      (''numberArray'', DoubleArraySerializer d),
      (''stringArray'', StringArraySerializer d),
      (''identified'', IdentifiedDataSerializableSerializer d)]"

definition registerDefaultSerializers ::
  "defaultSerializers \<Rightarrow> serializationService \<Rightarrow> (error + unit) \<times> serializationService" where
  "registerDefaultSerializers d s = registerAll s (defaultRegistrations d)"

text \<open>The constructor: empty tables, then the default serializers.\<close>

definition emptyService :: "bool \<Rightarrow> serializationService" where
  "emptyService isBig = \<lparr>registry = Map.empty, serializerNameToId = Map.empty, isBigEndian = isBig\<rparr>"

definition newSerializationServiceV1 ::
  "bool \<Rightarrow> defaultSerializers \<Rightarrow> (error + unit) \<times> serializationService" where
  "newSerializationServiceV1 isBig d = registerDefaultSerializers d (emptyService isBig)"

text \<open>
  \<^verbatim>\<open>findSerializerById\<close> and \<^verbatim>\<open>findSerializerByName\<close> return a serializer, or
  \<^verbatim>\<open>undefined\<close> or \<^verbatim>\<open>null\<close> when there is none: \<open>None\<close> stands for both, since a
  caller that goes on to call a method of either gets the same TypeError. A name that
  has no entry and is in \<open>objectPrototypeKeys\<close> reads as a value that is no key of the
  registry, so that \<^verbatim>\<open>findSerializerById\<close> gives \<^verbatim>\<open>undefined\<close> for it: \<open>None\<close> again.
\<close>

definition findSerializerById :: "serializationService \<Rightarrow> int32 \<Rightarrow> serializer option" where
  "findSerializerById s i = registry s i"

definition findSerializerByName :: "serializationService \<Rightarrow> string \<Rightarrow> bool \<Rightarrow> serializer option" where
  "findSerializerByName s name isArray =
     (let serializerName = name @ (if isArray then ''Array'' else '''') in
      case serializerNameToId s serializerName of
        None \<Rightarrow> None
      | Some serializerId \<Rightarrow> findSerializerById s serializerId)"

definition isIdentifiedDataSerializable :: "jsval \<Rightarrow> error + bool" where
  "isIdentifiedDataSerializable obj =
     (case getProp obj ''readData'' of
        Inl e \<Rightarrow> Inl e
      | Inr a \<Rightarrow>
          (if \<not> truthy a then Inr False
           else (case getProp obj ''writeData'' of
                   Inl e \<Rightarrow> Inl e
                 | Inr b \<Rightarrow>
                     (if \<not> truthy b then Inr False
                      else (case getProp obj ''getClassId'' of
                              Inl e \<Rightarrow> Inl e
                            | Inr c \<Rightarrow>
                                (if \<not> truthy c then Inr False
                                 else (case getProp obj ''getFactoryId'' of
                                         Inl e \<Rightarrow> Inl e
                                       | Inr d \<Rightarrow> Inr (truthy d))))))))"

definition findSerializerFor :: "serializationService \<Rightarrow> jsval \<Rightarrow> error + serializer option" where
  "findSerializerFor s obj =
     (if obj = JUndefined then Inl (RangeError ''undefined cannot be serialized.'')
      else case isIdentifiedDataSerializable obj of
        Inl e \<Rightarrow> Inl e
      | Inr True \<Rightarrow> Inr (findSerializerByName s ''identified'' False)
      | Inr False \<Rightarrow>
          (let objectType = getType obj in
           if objectType = ''array'' then
             (if length (elements obj) = 0
              then Inr (findSerializerByName s ''number'' True)
              else Inr (findSerializerByName s (getType (firstElement obj)) True))
           else Inr (findSerializerByName s objectType False)))"

text \<open>
  \<^verbatim>\<open>defaultPartitionStrategy\<close>. The call \<^verbatim>\<open>obj.getPartitionHash()\<close> runs a method of the
  application's object: \<open>invoke\<close> stands for it.
\<close>

definition defaultPartitionStrategy :: "(jsval \<Rightarrow> error + int32) \<Rightarrow> jsval \<Rightarrow> error + int32" where
  "defaultPartitionStrategy invoke obj =
     (if obj = JNull \<or> obj = JUndefined then Inr 0
      else case getProp obj ''getPartitionHash'' of
        Inl e \<Rightarrow> Inl e
      | Inr p \<Rightarrow>
          if \<not> truthy p then Inr 0
          else (case p of JFunction f \<Rightarrow> invoke obj | _ \<Rightarrow> Inl TypeError))"

definition calculatePartitionHash :: "jsval \<Rightarrow> (jsval \<Rightarrow> error + int32) \<Rightarrow> error + int32" where
  "calculatePartitionHash object strategy = strategy object"

text \<open>
  \<^verbatim>\<open>toData\<close>. The statements run in the source's order: the serializer is looked up, the
  partition strategy runs and its hash is written, then \<^verbatim>\<open>serializer.getId()\<close> is
  called, which raises a TypeError when the lookup found no serializer. \<open>toDataWith\<close>
  is the part of the body that follows the lookup, given the lookup's result.
\<close>

definition toDataWith ::
  "serializationService \<Rightarrow> (jsval \<Rightarrow> error + int32) \<Rightarrow> serializer option \<Rightarrow> jsval \<Rightarrow> error + heapData" where
  "toDataWith s partitioningStrategy serializer object =
     (let dataOutput = newObjectDataOutput (isBigEndian s) in
      case calculatePartitionHash object partitioningStrategy of
        Inl e \<Rightarrow> Inl e
      | Inr hash \<Rightarrow>
          (let out1 = writeIntBE dataOutput hash in
           case serializer of
             None \<Rightarrow> Inl TypeError
           | Some ser \<Rightarrow>
               (let out2 = writeIntBE out1 (getId ser) in
                case write_fn ser out2 object of
                  Inl e \<Rightarrow> Inl e
                | Inr out3 \<Rightarrow> Inr (HeapData (out_buffer out3)))))"

definition toData ::
  "serializationService \<Rightarrow> (jsval \<Rightarrow> error + int32) \<Rightarrow> jsval \<Rightarrow> error + heapData" where
  "toData s partitioningStrategy object =
     (case findSerializerFor s object of
        Inl e \<Rightarrow> Inl e
      | Inr serializer \<Rightarrow> toDataWith s partitioningStrategy serializer object)"

definition toObject :: "serializationService \<Rightarrow> heapData \<Rightarrow> error + jsval" where
  "toObject s data =
     (case getTypeOfData data of
        Inl e \<Rightarrow> Inl e
      | Inr t \<Rightarrow>
          (let serializer = findSerializerById s t;
               dataInput = newObjectDataInput (toBuffer data) DATA_OFFSET (isBigEndian s)
           in case serializer of
                None \<Rightarrow> Inl TypeError
              | Some ser \<Rightarrow> read_fn ser dataInput))"

definition writeObject :: "serializationService \<Rightarrow> dataOutput \<Rightarrow> jsval \<Rightarrow> error + dataOutput" where
  "writeObject s out object =
     (case findSerializerFor s object of
        Inl e \<Rightarrow> Inl e
      | Inr None \<Rightarrow> Inl TypeError
      | Inr (Some ser) \<Rightarrow> write_fn ser (writeInt out (getId ser)) object)"

definition readObject :: "serializationService \<Rightarrow> dataInput \<Rightarrow> error + jsval" where
  "readObject s inp =
     (case readInt inp of
        Inl e \<Rightarrow> Inl e
      | Inr (serializerId, inp') \<Rightarrow>
          (case findSerializerById s serializerId of
             None \<Rightarrow> Inl TypeError
           | Some ser \<Rightarrow> read_fn ser inp'))"

text \<open>
  \<^verbatim>\<open>testObject\<close> of \<^verbatim>\<open>DefaultSerializersTest.js\<close>: serialize with the default partition
  strategy, read back, and compare with the value that went in (\<^verbatim>\<open>deep.equal\<close>).
\<close>

definition testObject ::
  "serializationService \<Rightarrow> (jsval \<Rightarrow> error + int32) \<Rightarrow> jsval \<Rightarrow> error + bool" where
  "testObject s invoke obj =
     (case toData s (defaultPartitionStrategy invoke) obj of
        Inl e \<Rightarrow> Inl e
      | Inr serialized \<Rightarrow>
          (case toObject s serialized of
             Inl e \<Rightarrow> Inl e
           | Inr v \<Rightarrow> Inr (v = obj)))"

section \<open>The MultiMapIsLocked codec\<close>

text \<open>
  A \<^verbatim>\<open>string\<close> argument of the codec is modelled by its UTF-8 bytes, which is what its
  size and its encoding count.
\<close>

text \<open>
  Modelled from the spec: \<^verbatim>\<open>BitsUtil.calculateSizeString\<close> and
  \<^verbatim>\<open>BitsUtil.calculateSizeData\<close> (\<^verbatim>\<open>BitsUtil.ts\<close> is not among the source files). In the
  spec a string and an envelope contribute a 4-byte length prefix plus their content
  length.
\<close>

definition calculateSizeString :: "string \<Rightarrow> nat" where
  "calculateSizeString v = 4 + length v"

definition calculateSizeData :: "heapData \<Rightarrow> nat" where
  "calculateSizeData d = 4 + length (toBuffer d)"

text \<open>
  The constants the codec reads from modules that are not among the source files:
  the width of the message header (\<^verbatim>\<open>BitsUtil.ts\<close>) and the request type
  \<^verbatim>\<open>MultiMapMessageType.MULTIMAP_ISLOCKED\<close>. They are parameters of the model.
\<close>

record protocolConstants =
  HEADER_SIZE :: nat
  MULTIMAP_ISLOCKED :: int

definition RETRYABLE :: bool where
  "RETRYABLE = True"

text \<open>
  Modelled from the spec: \<^verbatim>\<open>ClientMessage\<close> (\<^verbatim>\<open>ClientMessage.ts\<close> is not among the source
  files). The spec's protocol message is a byte buffer: a header of fixed width that
  holds the frame length, the message type and the retryable flag, then the body fields
  in order. \<^verbatim>\<open>newClientMessage\<close> gets the size of the payload, as the source's
  \<^verbatim>\<open>calculateSize\<close> computes it, and allocates the header and that many bytes; the frame
  length starts as a placeholder. A string and an envelope are appended as a 4-byte
  length and the content, a boolean is one byte, and \<^verbatim>\<open>updateFrameLength\<close> sets the frame
  length to the length of the buffer. A write or a read past the end of the buffer
  fails with OutOfRange. The header's fields are kept as fields of the record, since
  the spec leaves their offsets to the protocol version; \<open>cursor\<close> counts from the end
  of the header. The spec fixes the width of a length prefix and not its byte order:
  it is little-endian here, and no theorem depends on that.
\<close>

record clientMessage =
  headerSize :: nat
  frameLength :: nat
  messageType :: int
  retryable :: bool
  cursor :: nat
  payload :: "byte list"

definition bufferLength :: "clientMessage \<Rightarrow> nat" where
  "bufferLength m = headerSize m + length (payload m)"

definition newClientMessage :: "nat \<Rightarrow> nat \<Rightarrow> clientMessage" where
  "newClientMessage hdr payloadSize =
     \<lparr>headerSize = hdr, frameLength = 0, messageType = 0, retryable = False,
      cursor = 0, payload = replicate payloadSize 0\<rparr>"

definition setMessageType :: "clientMessage \<Rightarrow> int \<Rightarrow> clientMessage" where
  "setMessageType m t = m\<lparr>messageType := t\<rparr>"

definition setRetryable :: "clientMessage \<Rightarrow> bool \<Rightarrow> clientMessage" where
  "setRetryable m r = m\<lparr>retryable := r\<rparr>"

definition appendBytes :: "clientMessage \<Rightarrow> byte list \<Rightarrow> error + clientMessage" where
  "appendBytes m bs =
     (if length (payload m) < cursor m + length bs then Inl OutOfRange
      else Inr (m\<lparr>payload := take (cursor m) (payload m) @ bs
                               @ drop (cursor m + length bs) (payload m),
                   cursor := cursor m + length bs\<rparr>))"

definition appendString :: "clientMessage \<Rightarrow> string \<Rightarrow> error + clientMessage" where
  "appendString m v = appendBytes m (le32 (of_nat (length v)) @ map of_char v)"

definition appendData :: "clientMessage \<Rightarrow> heapData \<Rightarrow> error + clientMessage" where
  "appendData m d = appendBytes m (le32 (of_nat (length (toBuffer d))) @ toBuffer d)"

definition updateFrameLength :: "clientMessage \<Rightarrow> clientMessage" where
  "updateFrameLength m = m\<lparr>frameLength := bufferLength m\<rparr>"

definition readBoolean :: "clientMessage \<Rightarrow> error + (bool \<times> clientMessage)" where
  "readBoolean m =
     (if cursor m < length (payload m)
      then Inr (payload m ! cursor m = 1, m\<lparr>cursor := cursor m + 1\<rparr>)
      else Inl OutOfRange)"

text \<open>\<^verbatim>\<open>MultiMapIsLockedCodec.calculateSize\<close>: the source's comment calls it the request payload size.\<close>

definition calculateSize :: "string \<Rightarrow> heapData \<Rightarrow> nat" where
  "calculateSize name key =
     (let dataSize = 0;
          dataSize = dataSize + calculateSizeString name;
          dataSize = dataSize + calculateSizeData key
      in dataSize)"

definition encodeRequest :: "protocolConstants \<Rightarrow> string \<Rightarrow> heapData \<Rightarrow> error + clientMessage" where
  "encodeRequest c name key =
     (let clientMessage = newClientMessage (HEADER_SIZE c) (calculateSize name key);
          clientMessage = setMessageType clientMessage (MULTIMAP_ISLOCKED c);
          clientMessage = setRetryable clientMessage RETRYABLE
      in case appendString clientMessage name of
           Inl e \<Rightarrow> Inl e
         | Inr clientMessage \<Rightarrow>
             (case appendData clientMessage key of
                Inl e \<Rightarrow> Inl e
              | Inr clientMessage \<Rightarrow> Inr (updateFrameLength clientMessage)))"

text \<open>
  \<^verbatim>\<open>MultiMapIsLockedCodec.decodeResponse\<close>. The second argument is the optional
  converter \<^verbatim>\<open>toObjectFunction\<close>, \<^verbatim>\<open>null\<close> by default. Reading moves the message's
  cursor, so the message is returned as the call leaves it.
\<close>

record parameters =
  response :: bool

definition decodeResponse ::
  "clientMessage \<Rightarrow> (heapData \<Rightarrow> error + jsval) option \<Rightarrow> (error + parameters) \<times> clientMessage" where
  "decodeResponse clientMessage toObjectFunction =
     (case readBoolean clientMessage of
        Inl e \<Rightarrow> (Inl e, clientMessage)
      | Inr (b, clientMessage') \<Rightarrow> (Inr \<lparr>response = b\<rparr>, clientMessage'))"

section \<open>An example registry\<close>

text \<open>
  Serializers for the concrete evaluations below. \<open>exampleSerializer t p\<close> has the type
  tag \<open>t\<close>, writes the payload \<open>p\<close> after what the stream holds, and reads
  \<^verbatim>\<open>null\<close>. \<open>exampleDefaults\<close> gives the fifteen default serializers pairwise
  distinct tags, 0 for the null serializer among them; the one for identified custom
  types writes one byte of payload, the others none.
\<close>

definition exampleSerializer :: "int32 \<Rightarrow> byte list \<Rightarrow> serializer" where
  "exampleSerializer t p =
     \<lparr>getId = t,
      write_fn = (\<lambda>out v. Inr (out\<lparr>out_buffer := out_buffer out @ p\<rparr>)),
      read_fn = (\<lambda>inp. Inr JNull)\<rparr>"

definition exampleDefaults :: defaultSerializers where
  "exampleDefaults =
     \<lparr>StringSerializer = exampleSerializer (- 11) [],
      DoubleSerializer = exampleSerializer (- 10) [],
      BooleanSerializer = exampleSerializer (- 4) [],
      NullSerializer = exampleSerializer 0 [],
      ShortSerializer = exampleSerializer (- 6) [],
      IntegerSerializer = exampleSerializer (- 7) [],
      LongSerializer = exampleSerializer (- 8) [],
      FloatSerializer = exampleSerializer (- 9) [],
      BooleanArraySerializer = exampleSerializer (- 13) [],
      ShortArraySerializer = exampleSerializer (- 15) [],
      IntegerArraySerializer = exampleSerializer (- 16) [],
      LongArraySerializer = exampleSerializer (- 17) [],
      DoubleArraySerializer = exampleSerializer (- 19) [],
      StringArraySerializer = exampleSerializer (- 20) [],
      IdentifiedDataSerializableSerializer = exampleSerializer (- 2) [0x2A]\<rparr>"

definition exampleService :: "bool \<Rightarrow> serializationService" where
  "exampleService isBig = snd (newSerializationServiceV1 isBig exampleDefaults)"

section \<open>Bytes\<close>

text \<open>Reading four big-endian bytes gives back the integer that was written.\<close>

lemma rd_be32_be32: "rd_be32 (be32 w @ rest) = Some w"
proof -
  have "push_bit 24 (ucast (ucast (drop_bit 24 w) :: byte)) OR
        push_bit 16 (ucast (ucast (drop_bit 16 w) :: byte)) OR
        push_bit 8 (ucast (ucast (drop_bit 8 w) :: byte)) OR ucast (ucast w :: byte) = w"
  proof (rule bit_word_eqI)
    fix n :: nat
    assume "n < LENGTH(32)"
    then have n: "n < 32" by simp
    consider "n < 8" | "8 \<le> n" "n < 16" | "16 \<le> n" "n < 24" | "24 \<le> n"
      by linarith
    then show "bit (push_bit 24 (ucast (ucast (drop_bit 24 w) :: byte)) OR
        push_bit 16 (ucast (ucast (drop_bit 16 w) :: byte)) OR
        push_bit 8 (ucast (ucast (drop_bit 8 w) :: byte)) OR (ucast (ucast w :: byte) :: int32)) n = bit w n"
      using n by cases (auto simp: bit_simps)
  qed
  then show ?thesis by (simp add: be32_def)
qed

lemma length_be32: "length (be32 w) = 4" by (simp add: be32_def)
lemma length_le32: "length (le32 w) = 4" by (simp add: be32_def le32_def)

section \<open>The registry\<close>

text \<open>
  A call of \<^verbatim>\<open>registerSerializer\<close> that throws leaves the service as it was; one that
  returns has inserted both mappings, and the tag was not bound before.
\<close>

lemma registerSerializer_failed:
  "fst (registerSerializer s name ser) = Inl e \<Longrightarrow> snd (registerSerializer s name ser) = s"
  by (simp add: registerSerializer_def split: if_splits)

lemma registerSerializer_succeeded:
  assumes "registerSerializer s name ser = (Inr u, s')"
  shows "serializerNameToId s' = (serializerNameToId s)(name \<mapsto> getId ser)"
    and "registry s' = (registry s)(getId ser \<mapsto> ser)"
    and "isBigEndian s' = isBigEndian s"
    and "registry s (getId ser) = None"
  using assms by (auto simp: registerSerializer_def split: if_splits)

lemma registerSerializer_bound_tag:
  "registry s (getId ser) = Some x \<Longrightarrow> \<exists>e. fst (registerSerializer s name ser) = Inl e"
  by (simp add: registerSerializer_def)

text \<open>
  A sequence of registrations that all succeed keeps every binding it finds and binds
  every name of the sequence to its serializer, when the names are distinct. So the
  constructor, when it returns, has bound \<^verbatim>\<open>numberArray\<close> and \<^verbatim>\<open>identified\<close> to the
  serializers it constructed for them.
\<close>

lemma registerAll_keeps:
  "registerAll s es = (Inr u, s') \<Longrightarrow> serializerNameToId s n = Some i \<Longrightarrow> registry s i = Some x \<Longrightarrow>
   n \<notin> fst ` set es \<Longrightarrow> serializerNameToId s' n = Some i \<and> registry s' i = Some x"
proof (induction es arbitrary: s)
  case Nil
  then show ?case by simp
next
  case (Cons a es)
  obtain name ser where a: "a = (name, ser)" by (cases a)
  obtain r s1 where r: "registerSerializer s name ser = (r, s1)" by (cases "registerSerializer s name ser")
  with Cons.prems(1) a obtain v where v: "r = Inr v" and rest: "registerAll s1 es = (Inr u, s')"
    by (cases r) auto
  from r v have s1: "serializerNameToId s1 = (serializerNameToId s)(name \<mapsto> getId ser)"
    "registry s1 = (registry s)(getId ser \<mapsto> ser)" "registry s (getId ser) = None"
    by (auto dest: registerSerializer_succeeded)
  from Cons.prems(4) a have ne: "n \<noteq> name" by auto
  from s1 Cons.prems(3) have "getId ser \<noteq> i" by auto
  with s1 ne Cons.prems have "serializerNameToId s1 n = Some i" "registry s1 i = Some x" by auto
  moreover from Cons.prems(4) have "n \<notin> fst ` set es" by auto
  ultimately show ?case using Cons.IH[OF rest] by blast
qed

lemma registerAll_binds:
  "registerAll s es = (Inr u, s') \<Longrightarrow> (n, x) \<in> set es \<Longrightarrow> distinct (map fst es) \<Longrightarrow>
   serializerNameToId s' n = Some (getId x) \<and> registry s' (getId x) = Some x"
proof (induction es arbitrary: s)
  case Nil
  then show ?case by simp
next
  case (Cons a es)
  obtain name ser where a: "a = (name, ser)" by (cases a)
  obtain r s1 where r: "registerSerializer s name ser = (r, s1)" by (cases "registerSerializer s name ser")
  with Cons.prems(1) a obtain v where v: "r = Inr v" and rest: "registerAll s1 es = (Inr u, s')"
    by (cases r) auto
  from r v have s1: "serializerNameToId s1 = (serializerNameToId s)(name \<mapsto> getId ser)"
    "registry s1 = (registry s)(getId ser \<mapsto> ser)"
    by (auto dest: registerSerializer_succeeded)
  show ?case
  proof (cases "(n, x) = (name, ser)")
    case True
    with s1 have "serializerNameToId s1 n = Some (getId x)" "registry s1 (getId x) = Some x" by auto
    moreover from Cons.prems(3) a True have "n \<notin> fst ` set es" by auto
    ultimately show ?thesis using registerAll_keeps[OF rest] by blast
  next
    case False
    with Cons.prems(2) a have "(n, x) \<in> set es" by auto
    moreover from Cons.prems(3) have "distinct (map fst es)" by simp
    ultimately show ?thesis using Cons.IH[OF rest] by blast
  qed
qed

lemma distinct_defaultRegistrations: "distinct (map fst (defaultRegistrations d))"
  by (simp add: defaultRegistrations_def)

lemma default_numberArray:
  assumes "newSerializationServiceV1 isBig d = (Inr u, s)"
  shows "findSerializerByName s ''number'' True = Some (DoubleArraySerializer d)"
proof -
  have "(''numberArray'', DoubleArraySerializer d) \<in> set (defaultRegistrations d)"
    by (simp add: defaultRegistrations_def)
  with assms have "serializerNameToId s ''numberArray'' = Some (getId (DoubleArraySerializer d))
      \<and> registry s (getId (DoubleArraySerializer d)) = Some (DoubleArraySerializer d)"
    unfolding newSerializationServiceV1_def registerDefaultSerializers_def
    by (rule registerAll_binds) (rule distinct_defaultRegistrations)
  then show ?thesis by (simp add: findSerializerByName_def findSerializerById_def)
qed

lemma default_identified:
  assumes "newSerializationServiceV1 isBig d = (Inr u, s)"
  shows "findSerializerByName s ''identified'' False = Some (IdentifiedDataSerializableSerializer d)"
proof -
  have "(''identified'', IdentifiedDataSerializableSerializer d) \<in> set (defaultRegistrations d)"
    by (simp add: defaultRegistrations_def)
  with assms have "serializerNameToId s ''identified'' = Some (getId (IdentifiedDataSerializableSerializer d))
      \<and> registry s (getId (IdentifiedDataSerializableSerializer d)) = Some (IdentifiedDataSerializableSerializer d)"
    unfolding newSerializationServiceV1_def registerDefaultSerializers_def
    by (rule registerAll_binds) (rule distinct_defaultRegistrations)
  then show ?thesis by (simp add: findSerializerByName_def findSerializerById_def)
qed

text \<open>The example service: its constructor returns, and what it binds.\<close>

lemmas example_defs = exampleService_def newSerializationServiceV1_def registerDefaultSerializers_def
  defaultRegistrations_def exampleDefaults_def emptyService_def registerSerializer_def
  nameEntryTruthy_def objectPrototypeKeys_def

lemma exampleService_constructed:
  "newSerializationServiceV1 b exampleDefaults = (Inr (), exampleService b)"
  by (simp add: example_defs exampleSerializer_def)

lemma exampleService_isBigEndian: "isBigEndian (exampleService b) = b"
  by (simp add: example_defs exampleSerializer_def)

lemma exampleService_object: "findSerializerByName (exampleService b) ''object'' False = None"
  by (simp add: example_defs exampleSerializer_def findSerializerByName_def)

lemma exampleService_booleanArray:
  "findSerializerByName (exampleService b) ''boolean'' True = Some (BooleanArraySerializer exampleDefaults)"
  by (simp add: example_defs exampleSerializer_def findSerializerByName_def findSerializerById_def)

lemma exampleService_tag77: "findSerializerById (exampleService b) 77 = None"
  by (simp add: example_defs exampleSerializer_def findSerializerById_def)

lemma isIdentified_plain_array: "isIdentifiedDataSerializable (JArray [] xs) = Inr False"
  by (simp add: isIdentifiedDataSerializable_def)

section \<open>Envelopes\<close>

text \<open>
  What \<^verbatim>\<open>toData\<close> does once the serializer is looked up, and what \<^verbatim>\<open>toObject\<close> does on
  an envelope with a header. \<^verbatim>\<open>toObject\<close> gives back the value \<^verbatim>\<open>toData\<close> was given
  whenever the serializer's reader gives back what its writer appended.
\<close>

lemma toDataWith_Some:
  "toDataWith s strategy (Some ser) obj =
     (case strategy obj of Inl e \<Rightarrow> Inl e
      | Inr h \<Rightarrow> (case write_fn ser \<lparr>out_buffer = be32 h @ be32 (getId ser), out_bigEndian = isBigEndian s\<rparr> obj of
                    Inl e \<Rightarrow> Inl e | Inr out \<Rightarrow> Inr (HeapData (out_buffer out))))"
  by (simp add: toDataWith_def calculatePartitionHash_def newObjectDataOutput_def writeIntBE_def
      split: sum.splits)

lemma toDataWith_None:
  "toDataWith s strategy None obj = (case strategy obj of Inl e \<Rightarrow> Inl e | Inr h \<Rightarrow> Inl TypeError)"
  by (simp add: toDataWith_def calculatePartitionHash_def split: sum.splits)

text \<open>
  \<^verbatim>\<open>toData\<close> and \<^verbatim>\<open>writeObject\<close> in terms of what the lookup found: the bytes the
  serializer is handed, and its own write.
\<close>

lemma toData_found:
  "findSerializerFor s obj = Inr found \<Longrightarrow>
   toData s strategy obj =
     (case strategy obj of
        Inl e \<Rightarrow> Inl e
      | Inr h \<Rightarrow>
          (case found of
             None \<Rightarrow> Inl TypeError
           | Some ser \<Rightarrow>
               (case write_fn ser \<lparr>out_buffer = be32 h @ be32 (getId ser),
                                   out_bigEndian = isBigEndian s\<rparr> obj of
                  Inl e \<Rightarrow> Inl e
                | Inr out' \<Rightarrow> Inr (HeapData (out_buffer out')))))"
  by (cases found) (simp_all add: toData_def toDataWith_Some toDataWith_None split: sum.splits)

lemma writeObject_found:
  "findSerializerFor s obj = Inr found \<Longrightarrow>
   writeObject s out obj =
     (case found of
        None \<Rightarrow> Inl TypeError
      | Some ser \<Rightarrow>
          write_fn ser
            (out\<lparr>out_buffer := out_buffer out
                     @ (if out_bigEndian out then be32 (getId ser) else le32 (getId ser))\<rparr>) obj)"
  by (cases found) (simp_all add: writeObject_def writeInt_def)

lemma getTypeOfData_envelope: "getTypeOfData (HeapData (be32 h @ be32 t @ content)) = Inr t"
  by (simp add: getTypeOfData_def length_be32 rd_be32_be32)

lemma toObject_envelope:
  "toObject s (HeapData (be32 h @ be32 t @ content)) =
     (case findSerializerById s t of
        None \<Rightarrow> Inl TypeError
      | Some ser \<Rightarrow> read_fn ser \<lparr>in_buffer = be32 h @ be32 t @ content, in_pos = 8, in_bigEndian = isBigEndian s\<rparr>)"
  by (simp add: toObject_def getTypeOfData_envelope newObjectDataInput_def DATA_OFFSET_def)

lemma toObject_toData:
  assumes "findSerializerFor s obj = Inr (Some ser)"
    and "registry s (getId ser) = Some ser"
    and "strategy obj = Inr h"
    and "write_fn ser \<lparr>out_buffer = be32 h @ be32 (getId ser), out_bigEndian = isBigEndian s\<rparr> obj = Inr out"
    and "out_buffer out = be32 h @ be32 (getId ser) @ content"
    and "read_fn ser \<lparr>in_buffer = be32 h @ be32 (getId ser) @ content, in_pos = 8, in_bigEndian = isBigEndian s\<rparr> = Inr obj"
  shows "\<exists>d. toData s strategy obj = Inr d \<and> toObject s d = Inr obj"
  using assms by (simp add: toData_def toDataWith_Some toObject_envelope findSerializerById_def)

section \<open>The value null\<close>

text \<open>
  Claim C1. The claim: \<^verbatim>\<open>null\<close> is a serializable value, \<^verbatim>\<open>toData(null)\<close> succeeds and
  the error for the absent value is raised for \<^verbatim>\<open>undefined\<close> only. The code at the
  value \<^verbatim>\<open>null\<close>: \<^verbatim>\<open>findSerializerFor\<close> passes it to
  \<^verbatim>\<open>isIdentifiedDataSerializable\<close>, which reads \<^verbatim>\<open>obj.readData\<close>, so that \<^verbatim>\<open>toData\<close>
  ends with a TypeError whatever the registry and the partition strategy are. The
  RangeError of the absent value is raised for \<^verbatim>\<open>undefined\<close>.
\<close>

theorem toData_null_TypeError:
  "toData s strategy JNull = Inl TypeError
   \<and> toData s strategy JUndefined = Inl (RangeError ''undefined cannot be serialized.'')"
  by (simp add: toData_def findSerializerFor_def isIdentifiedDataSerializable_def)

text \<open>
  Claim C2. The claim: \<^verbatim>\<open>toObject(toData(v))\<close> deep-equals \<^verbatim>\<open>v\<close> for every supported
  value, \<^verbatim>\<open>null\<close> among them. The test's \<^verbatim>\<open>testObject\<close> at the value \<^verbatim>\<open>null\<close> ends with
  the TypeError of \<^verbatim>\<open>toData\<close>, before anything is read back.
\<close>

theorem testObject_null_TypeError: "testObject s invoke JNull = Inl TypeError"
  by (simp add: testObject_def toData_def findSerializerFor_def isIdentifiedDataSerializable_def)

section \<open>Registering a serializer\<close>

text \<open>
  What holds of \<^verbatim>\<open>registerSerializer\<close> in every state: a name whose entry is a
  tag other than 0 is refused, and so is a tag that is bound.
\<close>

lemma registerSerializer_bound_name:
  "serializerNameToId s name = Some t \<Longrightarrow> t \<noteq> 0 \<Longrightarrow>
   fst (registerSerializer s name ser) = Inl (RangeError ''Given serializer name is already in the registry.'')"
  by (simp add: registerSerializer_def nameEntryTruthy_def)

text \<open>
  Claim C5. The claim: registering a serializer under a name that already maps to a tag
  fails, in every state of the registry. The code at a name whose tag is 0: on the
  empty tables a serializer with the tag 0 is registered under the name \<^verbatim>\<open>custom\<close>; a
  second serializer, with the unbound tag 5, is then registered under the same name.
  The test \<^verbatim>\<open>if (this.serializerNameToId[name])\<close> reads the entry 0, which is falsy, so
  the second call succeeds and the name that mapped to 0 maps to 5.
\<close>

theorem registerSerializer_name_with_tag_zero:
  "fst (registerSerializer
         (snd (registerSerializer (emptyService True) ''custom'' (exampleSerializer 0 [])))
         ''custom'' (exampleSerializer 5 [])) = Inr ()
   \<and> serializerNameToId
         (snd (registerSerializer
           (snd (registerSerializer (emptyService True) ''custom'' (exampleSerializer 0 [])))
           ''custom'' (exampleSerializer 5 []))) ''custom'' = Some 5
   \<and> serializerNameToId
         (snd (registerSerializer (emptyService True) ''custom'' (exampleSerializer 0 []))) ''custom'' = Some 0"
  by (simp add: registerSerializer_def emptyService_def nameEntryTruthy_def objectPrototypeKeys_def
      exampleSerializer_def)

section \<open>Serializer resolution\<close>

text \<open>
  Claim C4. A value whose properties \<^verbatim>\<open>readData\<close>, \<^verbatim>\<open>writeData\<close>, \<^verbatim>\<open>getClassId\<close> and
  \<^verbatim>\<open>getFactoryId\<close> are all present (truthy, as a method is) is resolved to the
  serializer registered as \<^verbatim>\<open>identified\<close>, whatever else the value is. \<^verbatim>\<open>toData\<close>
  serializes it with that serializer: it runs the partition strategy, hands the
  serializer's \<^verbatim>\<open>write\<close> a stream that holds the hash and that serializer's tag, and
  wraps what \<^verbatim>\<open>write\<close> leaves in the stream. \<^verbatim>\<open>writeObject\<close> appends that serializer's tag
  to the stream it is given and calls the same \<^verbatim>\<open>write\<close>. In a service as its
  constructor leaves it the serializer is the identified-type serializer.
\<close>

theorem identified_precedence:
  assumes "getProp obj ''readData'' = Inr a" and "truthy a"
    and "getProp obj ''writeData'' = Inr b" and "truthy b"
    and "getProp obj ''getClassId'' = Inr c" and "truthy c"
    and "getProp obj ''getFactoryId'' = Inr f" and "truthy f"
  shows "findSerializerFor s obj = Inr (findSerializerByName s ''identified'' False)
    \<and> toData s strategy obj =
        (case strategy obj of
           Inl e \<Rightarrow> Inl e
         | Inr h \<Rightarrow>
             (case findSerializerByName s ''identified'' False of
                None \<Rightarrow> Inl TypeError
              | Some ser \<Rightarrow>
                  (case write_fn ser \<lparr>out_buffer = be32 h @ be32 (getId ser),
                                      out_bigEndian = isBigEndian s\<rparr> obj of
                     Inl e \<Rightarrow> Inl e
                   | Inr out' \<Rightarrow> Inr (HeapData (out_buffer out')))))
    \<and> writeObject s out obj =
        (case findSerializerByName s ''identified'' False of
           None \<Rightarrow> Inl TypeError
         | Some ser \<Rightarrow>
             write_fn ser
               (out\<lparr>out_buffer := out_buffer out
                        @ (if out_bigEndian out then be32 (getId ser) else le32 (getId ser))\<rparr>) obj)
    \<and> (newSerializationServiceV1 isBig d = (Inr u, s) \<longrightarrow>
          findSerializerFor s obj = Inr (Some (IdentifiedDataSerializableSerializer d))
          \<and> toData s strategy obj =
              (case strategy obj of
                 Inl e \<Rightarrow> Inl e
               | Inr h \<Rightarrow>
                   (case write_fn (IdentifiedDataSerializableSerializer d)
                           \<lparr>out_buffer = be32 h @ be32 (getId (IdentifiedDataSerializableSerializer d)),
                            out_bigEndian = isBigEndian s\<rparr> obj of
                      Inl e \<Rightarrow> Inl e
                    | Inr out' \<Rightarrow> Inr (HeapData (out_buffer out'))))
          \<and> writeObject s out obj =
              write_fn (IdentifiedDataSerializableSerializer d)
                (out\<lparr>out_buffer := out_buffer out
                         @ (if out_bigEndian out
                            then be32 (getId (IdentifiedDataSerializableSerializer d))
                            else le32 (getId (IdentifiedDataSerializableSerializer d)))\<rparr>) obj)"
proof -
  from assms(1) have "obj \<noteq> JUndefined" by auto
  with assms have f: "findSerializerFor s obj = Inr (findSerializerByName s ''identified'' False)"
    by (simp add: findSerializerFor_def isIdentifiedDataSerializable_def)
  note t = toData_found [OF f, of strategy]
  note w = writeObject_found [OF f, of out]
  show ?thesis
  proof (intro conjI impI)
    assume n: "newSerializationServiceV1 isBig d = (Inr u, s)"
    note i = default_identified [OF n]
    from f i show "findSerializerFor s obj = Inr (Some (IdentifiedDataSerializableSerializer d))"
      by simp
    from t i show "toData s strategy obj =
              (case strategy obj of
                 Inl e \<Rightarrow> Inl e
               | Inr h \<Rightarrow>
                   (case write_fn (IdentifiedDataSerializableSerializer d)
                           \<lparr>out_buffer = be32 h @ be32 (getId (IdentifiedDataSerializableSerializer d)),
                            out_bigEndian = isBigEndian s\<rparr> obj of
                      Inl e \<Rightarrow> Inl e
                    | Inr out' \<Rightarrow> Inr (HeapData (out_buffer out'))))"
      by (simp split: sum.splits)
    from w i show "writeObject s out obj =
              write_fn (IdentifiedDataSerializableSerializer d)
                (out\<lparr>out_buffer := out_buffer out
                         @ (if out_bigEndian out
                            then be32 (getId (IdentifiedDataSerializableSerializer d))
                            else le32 (getId (IdentifiedDataSerializableSerializer d)))\<rparr>) obj"
      by simp
  qed (rule f t w)+
qed

text \<open>
  The theorem in the example service, little-endian: \<^verbatim>\<open>toData\<close> at an array that
  carries the four methods writes the tag -2 and the identified-type serializer's
  payload byte, and \<^verbatim>\<open>writeObject\<close> at a plain object that carries them appends the same
  tag and byte.
\<close>

theorem identified_precedence_witness:
  "findSerializerFor (exampleService False)
     (JArray [(''readData'', JFunction 0), (''writeData'', JFunction 1),
              (''getClassId'', JFunction 2), (''getFactoryId'', JFunction 3)] [JBool True]) =
     Inr (Some (IdentifiedDataSerializableSerializer exampleDefaults))
   \<and> toData (exampleService False) (\<lambda>v. Inr 7)
     (JArray [(''readData'', JFunction 0), (''writeData'', JFunction 1),
              (''getClassId'', JFunction 2), (''getFactoryId'', JFunction 3)] [JBool True]) =
     Inr (HeapData [0, 0, 0, 7, 0xFF, 0xFF, 0xFF, 0xFE, 0x2A])
   \<and> writeObject (exampleService False) \<lparr>out_buffer = [9], out_bigEndian = False\<rparr>
     (JObject [(''readData'', JFunction 0), (''writeData'', JFunction 1),
              (''getClassId'', JFunction 2), (''getFactoryId'', JFunction 3)]) =
     Inr \<lparr>out_buffer = [9, 0xFE, 0xFF, 0xFF, 0xFF, 0x2A], out_bigEndian = False\<rparr>"
proof -
  note arr = identified_precedence [where
      obj = "JArray [(''readData'', JFunction 0), (''writeData'', JFunction 1),
              (''getClassId'', JFunction 2), (''getFactoryId'', JFunction 3)] [JBool True]"
      and a = "JFunction 0" and b = "JFunction 1" and c = "JFunction 2" and f = "JFunction 3"
      and s = "exampleService False" and strategy = "\<lambda>v. Inr 7"
      and out = "\<lparr>out_buffer = [9], out_bigEndian = False\<rparr>",
      THEN conjunct2, THEN conjunct2, THEN conjunct2, rule_format,
      OF _ _ _ _ _ _ _ _ exampleService_constructed]
  note ob = identified_precedence [where
      obj = "JObject [(''readData'', JFunction 0), (''writeData'', JFunction 1),
              (''getClassId'', JFunction 2), (''getFactoryId'', JFunction 3)]"
      and a = "JFunction 0" and b = "JFunction 1" and c = "JFunction 2" and f = "JFunction 3"
      and s = "exampleService False" and strategy = "\<lambda>v. Inr 7"
      and out = "\<lparr>out_buffer = [9], out_bigEndian = False\<rparr>",
      THEN conjunct2, THEN conjunct2, THEN conjunct2, rule_format,
      OF _ _ _ _ _ _ _ _ exampleService_constructed]
  from arr ob show ?thesis
    by (simp add: exampleDefaults_def exampleSerializer_def be32_def le32_def)
qed

text \<open>
  Claim C3. Array dispatch in \<^verbatim>\<open>findSerializerFor\<close>, the branch that follows the test
  for an identified custom type: for every array that reaches it (the test answers no,
  as it does for every array that does not carry all four methods), an empty array is
  resolved to the serializer registered as \<^verbatim>\<open>numberArray\<close>, which is the default
  numeric-array serializer in a service as its constructor leaves it, and a non-empty
  array is resolved to the array serializer of its first element's shape, whatever the
  later elements are. \<^verbatim>\<open>toData\<close> serializes with that serializer: it hands the
  serializer's \<^verbatim>\<open>write\<close> a stream that holds the hash and that serializer's tag, and
  wraps what \<^verbatim>\<open>write\<close> leaves in the stream.
\<close>

theorem array_dispatch:
  assumes "isIdentifiedDataSerializable (JArray ps xs) = Inr False"
  shows "findSerializerFor s (JArray ps xs) =
           Inr (findSerializerByName s (case xs of [] \<Rightarrow> ''number'' | x # rest \<Rightarrow> getType x) True)
    \<and> toData s strategy (JArray ps xs) =
        (case strategy (JArray ps xs) of
           Inl e \<Rightarrow> Inl e
         | Inr h \<Rightarrow>
             (case findSerializerByName s (case xs of [] \<Rightarrow> ''number'' | x # rest \<Rightarrow> getType x) True of
                None \<Rightarrow> Inl TypeError
              | Some ser \<Rightarrow>
                  (case write_fn ser \<lparr>out_buffer = be32 h @ be32 (getId ser),
                                      out_bigEndian = isBigEndian s\<rparr> (JArray ps xs) of
                     Inl e \<Rightarrow> Inl e
                   | Inr out' \<Rightarrow> Inr (HeapData (out_buffer out')))))
    \<and> (newSerializationServiceV1 isBig d = (Inr u, s) \<longrightarrow> xs = [] \<longrightarrow>
          findSerializerFor s (JArray ps xs) = Inr (Some (DoubleArraySerializer d))
          \<and> toData s strategy (JArray ps xs) =
              (case strategy (JArray ps xs) of
                 Inl e \<Rightarrow> Inl e
               | Inr h \<Rightarrow>
                   (case write_fn (DoubleArraySerializer d)
                           \<lparr>out_buffer = be32 h @ be32 (getId (DoubleArraySerializer d)),
                            out_bigEndian = isBigEndian s\<rparr> (JArray ps xs) of
                      Inl e \<Rightarrow> Inl e
                    | Inr out' \<Rightarrow> Inr (HeapData (out_buffer out')))))"
proof -
  have f: "findSerializerFor s (JArray ps xs) =
           Inr (findSerializerByName s (case xs of [] \<Rightarrow> ''number'' | x # rest \<Rightarrow> getType x) True)"
    using assms by (cases xs) (simp_all add: findSerializerFor_def firstElement_def)
  note t = toData_found [OF f, of strategy]
  show ?thesis
  proof (intro conjI impI)
    assume n: "newSerializationServiceV1 isBig d = (Inr u, s)" and e: "xs = []"
    note i = default_numberArray [OF n]
    from f i e show "findSerializerFor s (JArray ps xs) = Inr (Some (DoubleArraySerializer d))"
      by simp
    from t i e show "toData s strategy (JArray ps xs) =
              (case strategy (JArray ps xs) of
                 Inl e \<Rightarrow> Inl e
               | Inr h \<Rightarrow>
                   (case write_fn (DoubleArraySerializer d)
                           \<lparr>out_buffer = be32 h @ be32 (getId (DoubleArraySerializer d)),
                            out_bigEndian = isBigEndian s\<rparr> (JArray ps xs) of
                      Inl e \<Rightarrow> Inl e
                    | Inr out' \<Rightarrow> Inr (HeapData (out_buffer out'))))"
      by (simp split: sum.splits)
  qed (rule f t)+
qed

text \<open>
  The theorem in the example service: the empty array gets the tag -19 of the
  numeric-array serializer; an array of a boolean, a string and null gets the same
  serializer as the array of the boolean alone, with the tag -13.
\<close>

theorem array_dispatch_witness:
  "findSerializerFor (exampleService False) (JArray [] []) =
      Inr (Some (DoubleArraySerializer exampleDefaults))
   \<and> toData (exampleService False) (\<lambda>v. Inr 7) (JArray [] []) =
      Inr (HeapData [0, 0, 0, 7, 0xFF, 0xFF, 0xFF, 0xED])
   \<and> findSerializerFor (exampleService False) (JArray [] [JBool True, JString ''x'', JNull]) =
      Inr (Some (BooleanArraySerializer exampleDefaults))
   \<and> findSerializerFor (exampleService False) (JArray [] [JBool True]) =
      Inr (Some (BooleanArraySerializer exampleDefaults))
   \<and> toData (exampleService False) (\<lambda>v. Inr 7) (JArray [] [JBool True, JString ''x'', JNull]) =
      Inr (HeapData [0, 0, 0, 7, 0xFF, 0xFF, 0xFF, 0xF3])"
proof -
  note empty = array_dispatch [where ps = "[]" and xs = "[]" and s = "exampleService False"
      and strategy = "\<lambda>v. Inr 7", OF isIdentified_plain_array,
      THEN conjunct2, THEN conjunct2, rule_format, OF exampleService_constructed refl]
  note mixed = array_dispatch [where ps = "[]" and xs = "[JBool True, JString ''x'', JNull]"
      and s = "exampleService False" and strategy = "\<lambda>v. Inr 7" and isBig = False
      and d = exampleDefaults and u = "()", OF isIdentified_plain_array]
  note single = array_dispatch [where ps = "[]" and xs = "[JBool True]"
      and s = "exampleService False" and strategy = "\<lambda>v. Inr 7" and isBig = False
      and d = exampleDefaults and u = "()", OF isIdentified_plain_array, THEN conjunct1]
  from empty mixed [THEN conjunct1] mixed [THEN conjunct2, THEN conjunct1] single
  show ?thesis
    by (simp add: exampleService_booleanArray exampleDefaults_def exampleSerializer_def be32_def)
qed

section \<open>Missing serializers\<close>

text \<open>
  Claim C7 as stated fails at a plain object: its shape \<^verbatim>\<open>object\<close> has no serializer in
  the example service, and \<^verbatim>\<open>toData\<close> ends with the TypeError of calling \<^verbatim>\<open>getId\<close> on
  the absent serializer, an error that names no shape.
\<close>

theorem no_serializer_counterexample:
  "getType (JObject []) = ''object''
   \<and> findSerializerFor (exampleService True) (JObject []) = Inr None
   \<and> toData (exampleService True) (defaultPartitionStrategy (\<lambda>v. Inr 0)) (JObject []) = Inl TypeError"
  by (simp add: toData_def findSerializerFor_def isIdentifiedDataSerializable_def
      exampleService_object toDataWith_None defaultPartitionStrategy_def)

text \<open>
  Claim C7, amended. For every value for which the lookup finds no serializer,
  \<^verbatim>\<open>toData\<close> fails: with the error of the partition strategy when it raises one, and
  otherwise with a TypeError. \<^verbatim>\<open>writeObject\<close> fails with a TypeError.
\<close>

theorem no_serializer_TypeError:
  assumes "findSerializerFor s obj = Inr None"
  shows "toData s strategy obj = (case strategy obj of Inl e \<Rightarrow> Inl e | Inr h \<Rightarrow> Inl TypeError)
    \<and> writeObject s out obj = Inl TypeError"
  using assms by (simp add: toData_def toDataWith_None writeObject_def)

text \<open>
  The theorem at a plain object, with a strategy that returns and one that raises.
\<close>

theorem no_serializer_TypeError_witness:
  "findSerializerFor (exampleService True) (JObject []) = Inr None
   \<and> toData (exampleService True) (\<lambda>v. Inr 0) (JObject []) = Inl TypeError
   \<and> toData (exampleService True) (\<lambda>v. Inl (RangeError ''strategy'')) (JObject []) = Inl (RangeError ''strategy'')
   \<and> writeObject (exampleService True) (newObjectDataOutput True) (JObject []) = Inl TypeError"
proof -
  have f: "findSerializerFor (exampleService True) (JObject []) = Inr None"
    by (simp add: findSerializerFor_def isIdentifiedDataSerializable_def exampleService_object)
  from f no_serializer_TypeError [OF f, of "\<lambda>v. Inr 0" "newObjectDataOutput True"]
    no_serializer_TypeError [OF f, of "\<lambda>v. Inl (RangeError ''strategy'')" "newObjectDataOutput True"]
  show ?thesis by simp
qed

text \<open>
  Claim C9 as stated fails at an envelope with the tag 77, which the example service
  does not bind: \<^verbatim>\<open>toObject\<close> ends with the TypeError of calling \<^verbatim>\<open>read\<close> on the absent
  serializer.
\<close>

theorem unbound_tag_counterexample:
  "getTypeOfData (HeapData [0, 0, 0, 0, 0, 0, 0, 77, 1]) = Inr 77
   \<and> findSerializerById (exampleService True) 77 = None
   \<and> toObject (exampleService True) (HeapData [0, 0, 0, 0, 0, 0, 0, 77, 1]) = Inl TypeError"
  by (simp add: toObject_def getTypeOfData_def exampleService_tag77)

text \<open>
  Claim C9, amended. For every envelope, made of a 4-byte partition hash, a 4-byte
  type tag and a payload: when the registry binds no serializer to the tag,
  \<^verbatim>\<open>toObject\<close> fails with a TypeError; when it binds one, \<^verbatim>\<open>toObject\<close> is that
  serializer's reader on the envelope's buffer, positioned at offset 8, right after
  the two header fields, with the configured byte order.
\<close>

theorem toObject_dispatch:
  "getTypeOfData (HeapData (be32 h @ be32 t @ content)) = Inr t
   \<and> DATA_OFFSET = length (be32 h @ be32 t)
   \<and> toObject s (HeapData (be32 h @ be32 t @ content)) =
       (case registry s t of
          None \<Rightarrow> Inl TypeError
        | Some ser \<Rightarrow>
            read_fn ser \<lparr>in_buffer = be32 h @ be32 t @ content, in_pos = DATA_OFFSET,
                         in_bigEndian = isBigEndian s\<rparr>)"
  by (simp add: toObject_envelope getTypeOfData_envelope findSerializerById_def DATA_OFFSET_def
      length_be32 split: option.splits)

section \<open>The layout of an envelope\<close>

text \<open>
  Claim C8 as stated fails in a little-endian service: with the partition hash 1 and
  the tag -11 the header is written most significant byte first, and not as the
  little-endian bytes of the two integers.
\<close>

theorem header_big_endian_counterexample:
  "isBigEndian (exampleService False) = False
   \<and> map_sum id toBuffer (toData (exampleService False) (\<lambda>v. Inr 1) (JString ''a''))
       = Inr [0, 0, 0, 1, 0xFF, 0xFF, 0xFF, 0xF5]
   \<and> le32 1 @ le32 (- 11) = [1, 0, 0, 0, 0xF5, 0xFF, 0xFF, 0xFF]"
proof -
  have "findSerializerByName (exampleService False) ''string'' False = Some (exampleSerializer (- 11) [])"
    by (simp add: example_defs exampleSerializer_def findSerializerByName_def findSerializerById_def)
  then show ?thesis
    by (simp add: exampleService_isBigEndian toData_def findSerializerFor_def
        isIdentifiedDataSerializable_def toDataWith_Some exampleSerializer_def be32_def le32_def)
qed

text \<open>
  Claim C8, amended. For every value and either byte order: \<^verbatim>\<open>toData\<close> hands the
  serializer a stream that holds the partition hash and then the type tag, both as 4
  big-endian bytes whatever the configured byte order is, and that carries the
  configured byte order; when the serializer appends a payload to it, the envelope is
  the hash, the tag and the payload, in this order.
\<close>

theorem toData_layout:
  assumes "findSerializerFor s obj = Inr (Some ser)"
    and "strategy obj = Inr h"
    and "write_fn ser \<lparr>out_buffer = be32 h @ be32 (getId ser), out_bigEndian = isBigEndian s\<rparr> obj = Inr out"
    and "out_buffer out = be32 h @ be32 (getId ser) @ content"
  shows "toData s strategy obj = Inr (HeapData (be32 h @ be32 (getId ser) @ content))"
  using assms by (simp add: toData_def toDataWith_Some)

text \<open>
  The theorem in a little-endian service, at a serializer that appends five bytes.
\<close>

theorem toData_layout_witness:
  "toData (snd (registerSerializer (emptyService False) ''string'' (exampleSerializer (- 11) [0, 0, 0, 1, 0x61])))
     (\<lambda>v. Inr 1) (JString ''a'')
   = Inr (HeapData ([0, 0, 0, 1] @ [0xFF, 0xFF, 0xFF, 0xF5] @ [0, 0, 0, 1, 0x61]))"
proof -
  let ?ser = "exampleSerializer (- 11) [0, 0, 0, 1, 0x61]"
  let ?s = "snd (registerSerializer (emptyService False) ''string'' ?ser)"
  have f: "findSerializerFor ?s (JString ''a'') = Inr (Some ?ser)"
    by (simp add: findSerializerFor_def isIdentifiedDataSerializable_def findSerializerByName_def
        findSerializerById_def registerSerializer_def emptyService_def nameEntryTruthy_def
        objectPrototypeKeys_def exampleSerializer_def)
  have w: "write_fn ?ser \<lparr>out_buffer = be32 1 @ be32 (getId ?ser), out_bigEndian = isBigEndian ?s\<rparr> (JString ''a'')
      = Inr \<lparr>out_buffer = be32 1 @ be32 (getId ?ser) @ [0, 0, 0, 1, 0x61], out_bigEndian = isBigEndian ?s\<rparr>"
    by (simp add: exampleSerializer_def)
  from toData_layout [OF f _ w, of "\<lambda>v. Inr 1" "[0, 0, 0, 1, 0x61]"]
  show ?thesis by (simp add: be32_def exampleSerializer_def)
qed

section \<open>The codec\<close>

text \<open>
  Claim C6 as stated fails with a header of 22 bytes, the name \<^verbatim>\<open>ab\<close> and a key of 3
  bytes: \<^verbatim>\<open>calculateSize\<close> is 13, the sum of the two arguments' contributions with no
  header in it, and the buffer of the encoded request has 35 bytes.
\<close>

theorem calculateSize_counterexample:
  "calculateSize ''ab'' (HeapData [1, 2, 3]) = 13
   \<and> map_sum id bufferLength
        (encodeRequest \<lparr>HEADER_SIZE = 22, MULTIMAP_ISLOCKED = 0x0213\<rparr> ''ab'' (HeapData [1, 2, 3])) = Inr 35
   \<and> HEADER_SIZE \<lparr>HEADER_SIZE = 22, MULTIMAP_ISLOCKED = 0x0213\<rparr>
       + (calculateSizeString ''ab'' + calculateSizeData (HeapData [1, 2, 3])) = 35"
  by (simp add: calculateSize_def calculateSizeString_def calculateSizeData_def encodeRequest_def
      newClientMessage_def setMessageType_def setRetryable_def appendString_def appendData_def
      appendBytes_def updateFrameLength_def bufferLength_def length_le32 Let_def)

text \<open>
  Claim C6, amended. For every name and key, \<^verbatim>\<open>calculateSize\<close> is the size of the
  payload: 4 plus the length of the name, plus 4 plus the length of the key, without
  the header. \<^verbatim>\<open>encodeRequest\<close> never runs out of buffer; its message has the header
  and \<^verbatim>\<open>calculateSize(name, key)\<close> bytes of payload, which the two fields fill, and its
  frame length is the length of its buffer.
\<close>

theorem encodeRequest_size:
  "encodeRequest c name key =
     Inr \<lparr>headerSize = HEADER_SIZE c,
          frameLength = HEADER_SIZE c + calculateSize name key,
          messageType = MULTIMAP_ISLOCKED c,
          retryable = True,
          cursor = calculateSize name key,
          payload = le32 (of_nat (length name)) @ map of_char name
                    @ le32 (of_nat (length (toBuffer key))) @ toBuffer key\<rparr>
   \<and> map_sum id bufferLength (encodeRequest c name key) = Inr (HEADER_SIZE c + calculateSize name key)
   \<and> calculateSize name key = (4 + length name) + (4 + length (toBuffer key))"
  by (simp add: calculateSize_def calculateSizeString_def calculateSizeData_def encodeRequest_def
      newClientMessage_def setMessageType_def setRetryable_def appendString_def appendData_def
      appendBytes_def updateFrameLength_def bufferLength_def length_le32 Let_def RETRYABLE_def)

text \<open>
  Claim C10. For every message and every converter, \<^verbatim>\<open>decodeResponse\<close> returns what it
  returns without a converter: the converter has no effect. When the message has a
  boolean to read, the result is the record whose \<^verbatim>\<open>response\<close> is that boolean.
\<close>

theorem decodeResponse_ignores_converter:
  "decodeResponse m toObjectFunction = decodeResponse m None
   \<and> (readBoolean m = Inr (b, m') \<longrightarrow> decodeResponse m toObjectFunction = (Inr \<lparr>response = b\<rparr>, m'))"
  by (simp add: decodeResponse_def)

text \<open>
  The theorem at a message whose body is one byte, the boolean true, with a
  converter that returns and one that raises.
\<close>

theorem decodeResponse_ignores_converter_witness:
  "readBoolean \<lparr>headerSize = 22, frameLength = 23, messageType = 101, retryable = False,
                cursor = 0, payload = [1]\<rparr>
     = Inr (True, \<lparr>headerSize = 22, frameLength = 23, messageType = 101, retryable = False,
                cursor = 1, payload = [1]\<rparr>)
   \<and> fst (decodeResponse \<lparr>headerSize = 22, frameLength = 23, messageType = 101, retryable = False,
                cursor = 0, payload = [1]\<rparr> (Some (\<lambda>d. Inr JNull))) = Inr \<lparr>response = True\<rparr>
   \<and> fst (decodeResponse \<lparr>headerSize = 22, frameLength = 23, messageType = 101, retryable = False,
                cursor = 0, payload = [1]\<rparr> (Some (\<lambda>d. Inl TypeError))) = Inr \<lparr>response = True\<rparr>"
proof -
  let ?m = "\<lparr>headerSize = 22, frameLength = 23, messageType = 101, retryable = False,
                cursor = 0, payload = [1]\<rparr>"
  let ?m' = "\<lparr>headerSize = 22, frameLength = 23, messageType = 101, retryable = False,
                cursor = 1, payload = [1]\<rparr>"
  have r: "readBoolean ?m = Inr (True, ?m')"
    by (simp add: readBoolean_def)
  note ok = decodeResponse_ignores_converter [of ?m "Some (\<lambda>d. Inr JNull)" True ?m',
      THEN conjunct2, rule_format, OF r]
  note failing = decodeResponse_ignores_converter [of ?m "Some (\<lambda>d. Inl TypeError)" True ?m',
      THEN conjunct2, rule_format, OF r]
  from r ok failing show ?thesis by simp
qed

end
